theory Spec2Isabelle
  imports Main "HOL-Library.Word" "HOL-Library.Multiset"
begin

section \<open>Values shared by the packages\<close>

type_synonym bytes = "8 word list"

text \<open>A Go \<open>error\<close> value, carried by its message.\<close>

datatype error = Err string

text \<open>
  The outcome of a call of a Go function with a result list \<open>(T, error)\<close>:
  it returns a value with a nil error (\<open>Ret\<close>), it returns a non-nil error
  (\<open>Fail\<close>), or it does not return because the runtime panics on a nil
  dereference (\<open>Panic\<close>).
\<close>

datatype 'a go = Ret 'a | Fail error | Panic

section \<open>Package keypair (keypair/keypair.go)\<close>

subsection \<open>Data\<close>

text \<open>
  \<open>type KeyPair struct { keyType int; privKey PrivKey; pubKey PubKey }\<close>.
  The two keys are interface values of the library; a nil interface is \<open>None\<close>.
  The library's key types are the parameters \<open>'sk\<close> and \<open>'pk\<close>.
\<close>

record ('sk, 'pk) KeyPair =
  keyType :: int
  privKey :: "'sk option"
  pubKey :: "'pk option"

text \<open>\<open>type JSON struct { KeyType int `type`; SignKey bool `signKey`; Key string `key` }\<close>\<close>

record JSON =
  KeyType :: int
  SignKey :: bool
  Key :: string

text \<open>
  The key type codes of go-libp2p-core/crypto, an \<open>iota\<close> enumeration:
  RSA = 0, Ed25519 = 1, Secp256k1 = 2, ECDSA = 3.
\<close>

definition RSA :: int where "RSA = 0"
definition Ed25519 :: int where "Ed25519 = 1"
definition Secp256k1 :: int where "Secp256k1 = 2"
definition ECDSA :: int where "ECDSA = 3"

text \<open>
  The functions of the libraries that keypair.go calls (go-libp2p-core/crypto,
  go-libp2p-core/peer, encoding/json). They are not part of the repository, so
  the model takes them as a parameter. A library function with results
  \<open>(T, error)\<close> is a function into \<open>error + T\<close>.
\<close>

record ('sk, 'pk) lib =
  GenerateKeyPairWithReader :: "int \<Rightarrow> int \<Rightarrow> bytes \<Rightarrow> error + ('sk \<times> 'pk)"
  UnmarshalEd25519PrivateKey :: "bytes \<Rightarrow> error + 'sk"
  UnmarshalSecp256k1PrivateKey :: "bytes \<Rightarrow> error + 'sk"
  UnmarshalEd25519PublicKey :: "bytes \<Rightarrow> error + 'pk"
  GetPublic :: "'sk \<Rightarrow> 'pk"
  PrivRaw :: "'sk \<Rightarrow> error + bytes"
  PubRaw :: "'pk \<Rightarrow> error + bytes"
  PrivSign :: "'sk \<Rightarrow> bytes \<Rightarrow> error + bytes"
  PubVerify :: "'pk \<Rightarrow> bytes \<Rightarrow> bytes \<Rightarrow> error + bool"
  ConfigEncodeKey :: "bytes \<Rightarrow> string"
  ConfigDecodeKey :: "string \<Rightarrow> error + bytes"
  IDFromPublicKey :: "'pk \<Rightarrow> error + string"
  jsonMarshal :: "JSON \<Rightarrow> error + string"
  jsonUnmarshal :: "string \<Rightarrow> error + JSON"

text \<open>
  The files of the host. \<open>os.Create\<close> and \<open>File.Write\<close> can fail for a path
  (missing directory, permissions, full disk): \<open>createFails\<close> and \<open>writeFails\<close>
  give the error. \<open>os.Stat\<close> and \<open>ioutil.ReadFile\<close> fail where no file exists.
\<close>

record filesys =
  files :: "string \<rightharpoonup> string"
  createFails :: "string \<Rightarrow> error option"
  writeFails :: "string \<Rightarrow> error option"

subsection \<open>Constructors\<close>

text \<open>\<open>New\<close>: the third argument is what \<open>rand.Reader\<close> yields.\<close>

definition New :: "('sk, 'pk) lib \<Rightarrow> int \<Rightarrow> int \<Rightarrow> bytes \<Rightarrow> ('sk, 'pk) KeyPair go" where
  "New L typ bits rnd =
     (case GenerateKeyPairWithReader L typ bits rnd of
        Inr (p, v) \<Rightarrow> Ret \<lparr>keyType = typ, privKey = Some p, pubKey = Some v\<rparr>
      | Inl err \<Rightarrow> Fail err)"

definition NewEd25519 :: "('sk, 'pk) lib \<Rightarrow> bytes \<Rightarrow> ('sk, 'pk) KeyPair go" where
  "NewEd25519 L rnd = New L Ed25519 256 rnd"

definition NewSecp256k1 :: "('sk, 'pk) lib \<Rightarrow> bytes \<Rightarrow> ('sk, 'pk) KeyPair go" where
  "NewSecp256k1 L rnd = New L Secp256k1 256 rnd"

text \<open>
  \<open>FromPrivateKey\<close>. The variables \<open>p\<close> and \<open>err\<close> start as nil and are
  assigned only in the two branches; with any other \<open>typ\<close> both are still nil
  at \<open>if err == nil\<close>, and \<open>p.GetPublic()\<close> is a call on a nil interface.
  The literal \<open>&KeyPair{privKey: p, pubKey: ...}\<close> leaves \<open>keyType\<close> at 0.
\<close>

definition unmarshalled :: "error + 'sk \<Rightarrow> 'sk option \<times> error option" where
  "unmarshalled r = (case r of Inr p \<Rightarrow> (Some p, None) | Inl err \<Rightarrow> (None, Some err))"

definition FromPrivateKey :: "('sk, 'pk) lib \<Rightarrow> int \<Rightarrow> bytes \<Rightarrow> ('sk, 'pk) KeyPair go" where
  "FromPrivateKey L typ b =
     (let (p, err) =
            (if typ = Ed25519 then unmarshalled (UnmarshalEd25519PrivateKey L b)
             else if typ = Secp256k1 then unmarshalled (UnmarshalSecp256k1PrivateKey L b)
             else (None, None))
      in case err of
           None \<Rightarrow>
             (case p of
                None \<Rightarrow> Panic
              | Some sk \<Rightarrow> Ret \<lparr>keyType = 0, privKey = Some sk, pubKey = Some (GetPublic L sk)\<rparr>)
         | Some e \<Rightarrow> Fail e)"

definition FromBase64PrivateKey :: "('sk, 'pk) lib \<Rightarrow> int \<Rightarrow> string \<Rightarrow> ('sk, 'pk) KeyPair go" where
  "FromBase64PrivateKey L typ b =
     (case ConfigDecodeKey L b of
        Inr p \<Rightarrow> FromPrivateKey L typ p
      | Inl err \<Rightarrow> Fail err)"

definition FromPublicKey :: "('sk, 'pk) lib \<Rightarrow> bytes \<Rightarrow> ('sk, 'pk) KeyPair go" where
  "FromPublicKey L b =
     (case UnmarshalEd25519PublicKey L b of
        Inr v \<Rightarrow> Ret \<lparr>keyType = 0, privKey = None, pubKey = Some v\<rparr>
      | Inl err \<Rightarrow> Fail err)"

definition FromBase64PublicKey :: "('sk, 'pk) lib \<Rightarrow> string \<Rightarrow> ('sk, 'pk) KeyPair go" where
  "FromBase64PublicKey L b =
     (case ConfigDecodeKey L b of
        Inr v \<Rightarrow> FromPublicKey L v
      | Inl err \<Rightarrow> Fail err)"

subsection \<open>Saving and loading\<close>

text \<open>
  \<open>writeToJSON\<close>: the file handle is the path that \<open>os.Create\<close> opened, and
  the file is empty when the record is written. The result is
  \<open>writtenBytes > 0\<close>.
\<close>

definition writeToJSON ::
  "('sk, 'pk) lib \<Rightarrow> string \<Rightarrow> JSON \<Rightarrow> filesys \<Rightarrow> bool go \<times> filesys" where
  "writeToJSON L fid jsonKey fs =
     (case jsonMarshal L jsonKey of
        Inr encodedJSON \<Rightarrow>
          (case writeFails fs fid of
             None \<Rightarrow> (Ret (0 < length encodedJSON),
                      fs\<lparr>files := (files fs)(fid \<mapsto> encodedJSON)\<rparr>)
           | Some err \<Rightarrow> (Fail err, fs))
      | Inl err \<Rightarrow> (Fail err, fs))"

definition isAbleToSign :: "('sk, 'pk) KeyPair \<Rightarrow> bool" where
  "isAbleToSign k = (privKey k \<noteq> None)"

text \<open>
  \<open>SaveToFile\<close>. \<open>os.Create\<close> truncates the file. \<open>new(JSON)\<close> is the zero
  record, and the function assigns \<open>SignKey\<close> and \<open>Key\<close> only.
\<close>

definition SaveToFile ::
  "('sk, 'pk) lib \<Rightarrow> ('sk, 'pk) KeyPair \<Rightarrow> string \<Rightarrow> filesys \<Rightarrow> bool go \<times> filesys" where
  "SaveToFile L k fileName fs =
     (case createFails fs fileName of
        Some err \<Rightarrow> (Fail err, fs)
      | None \<Rightarrow>
          (let fs1 = fs\<lparr>files := (files fs)(fileName \<mapsto> [])\<rparr>;
               jsonKey = \<lparr>KeyType = 0, SignKey = False, Key = []\<rparr>
           in if isAbleToSign k then
                (case privKey k of
                   None \<Rightarrow> (Panic, fs1)
                 | Some sk \<Rightarrow>
                     (case PrivRaw L sk of
                        Inr key \<Rightarrow>
                          writeToJSON L fileName
                            (jsonKey\<lparr>SignKey := True, Key := ConfigEncodeKey L key\<rparr>) fs1
                      | Inl err \<Rightarrow> (Fail err, fs1)))
              else
                (case pubKey k of
                   None \<Rightarrow> (Panic, fs1)
                 | Some pk \<Rightarrow>
                     (case PubRaw L pk of
                        Inr key \<Rightarrow>
                          writeToJSON L fileName
                            (jsonKey\<lparr>SignKey := False, Key := ConfigEncodeKey L key\<rparr>) fs1
                      | Inl err \<Rightarrow> (Fail err, fs1)))))"

definition LoadFromFile :: "('sk, 'pk) lib \<Rightarrow> string \<Rightarrow> filesys \<Rightarrow> ('sk, 'pk) KeyPair go" where
  "LoadFromFile L fileName fs =
     (case files fs fileName of
        None \<Rightarrow> Fail (Err ''open: no such file or directory'')
      | Some fileContent \<Rightarrow>
          (case jsonUnmarshal L fileContent of
             Inr jsonKey \<Rightarrow>
               (if SignKey jsonKey then FromBase64PrivateKey L (KeyType jsonKey) (Key jsonKey)
                else FromBase64PublicKey L (Key jsonKey))
           | Inl err \<Rightarrow> Fail err))"

subsection \<open>Accessors, signing\<close>

definition GetPrivateKey :: "('sk, 'pk) KeyPair \<Rightarrow> 'sk option" where
  "GetPrivateKey k = privKey k"

definition GetPublicKey :: "('sk, 'pk) KeyPair \<Rightarrow> 'pk option" where
  "GetPublicKey k = pubKey k"

text \<open>\<open>GetID\<close>: \<open>peer.IDFromPublicKey\<close> reads the key, a nil key panics there.\<close>

definition GetID :: "('sk, 'pk) lib \<Rightarrow> ('sk, 'pk) KeyPair \<Rightarrow> string go" where
  "GetID L k =
     (case GetPublicKey k of
        None \<Rightarrow> Panic
      | Some pk \<Rightarrow> (case IDFromPublicKey L pk of Inr i \<Rightarrow> Ret i | Inl err \<Rightarrow> Fail err))"

text \<open>\<open>Sign\<close> calls \<open>k.privKey.Sign(data)\<close> with no check of \<open>privKey\<close>.\<close>

definition Sign :: "('sk, 'pk) lib \<Rightarrow> ('sk, 'pk) KeyPair \<Rightarrow> bytes \<Rightarrow> bytes go" where
  "Sign L k data =
     (case privKey k of
        None \<Rightarrow> Panic
      | Some sk \<Rightarrow> (case PrivSign L sk data of Inr s \<Rightarrow> Ret s | Inl err \<Rightarrow> Fail err))"

definition Verify :: "('sk, 'pk) lib \<Rightarrow> ('sk, 'pk) KeyPair \<Rightarrow> bytes \<Rightarrow> bytes \<Rightarrow> bool go" where
  "Verify L k data signature =
     (case pubKey k of
        None \<Rightarrow> Panic
      | Some pk \<Rightarrow> (case PubVerify L pk data signature of Inr b \<Rightarrow> Ret b | Inl err \<Rightarrow> Fail err))"

section \<open>Command drng (cmd/drng/main.go)\<close>

text \<open>
  How the first part of \<open>main\<close> (lines 12 to 29, the choice of the node key)
  ends: \<open>log.Panic(err)\<close> logs the error and panics (\<open>Aborted\<close>), a nil
  dereference in a callee is a runtime panic (\<open>Crashed\<close>), and otherwise
  control reaches \<open>network.New\<close> at line 31 with the node key (\<open>Proceed\<close>).
\<close>

datatype ('sk, 'pk) startup =
  Aborted error | Crashed | is_Proceed: Proceed "('sk, 'pk) KeyPair"

text \<open>
  \<open>main\<close>, lines 12 to 29. \<open>os.Stat\<close> fails where no file exists. The call
  \<open>nodeKey.SaveToFile(keyfile)\<close> is an expression statement: both of its
  results are dropped and only its effect on the files remains.
\<close>

definition main_nodeKey ::
  "('sk, 'pk) lib \<Rightarrow> string \<Rightarrow> bytes \<Rightarrow> filesys \<Rightarrow> ('sk, 'pk) startup \<times> filesys" where
  "main_nodeKey L keyfile rnd fs =
     (if files fs keyfile = None then
        (case New L Ed25519 256 rnd of
           Fail err \<Rightarrow> (Aborted err, fs)
         | Panic \<Rightarrow> (Crashed, fs)
         | Ret nodeKey \<Rightarrow>
             (case SaveToFile L nodeKey keyfile fs of
                (Panic, fs') \<Rightarrow> (Crashed, fs')
              | (_, fs') \<Rightarrow> (Proceed nodeKey, fs')))
      else
        (case LoadFromFile L keyfile fs of
           Fail err \<Rightarrow> (Aborted err, fs)
         | Panic \<Rightarrow> (Crashed, fs)
         | Ret nodeKey \<Rightarrow> (Proceed nodeKey, fs)))"

section \<open>Package network (network/network.go)\<close>

subsection \<open>Data\<close>

text \<open>\<open>peer.AddrInfo\<close>: a peer identifier and its addresses.\<close>

record AddrInfo =
  ID :: string
  Addrs :: "string list"

text \<open>
  \<open>type Network struct\<close>. The field \<open>host\<close> is read for \<open>host.ID()\<close> and
  \<open>host.Connect\<close>; the record keeps its identifier, and what the library does
  on a call is in the environment below, as for \<open>context\<close>, \<open>nodeKey\<close> and
  \<open>pubsub\<close>.
\<close>

record Network =
  BindHost :: string
  BindPort :: nat
  NodeID :: string
  Domain :: string
  host_ID :: string

text \<open>A message of the subscription: \<open>msg.GetFrom()\<close> and \<open>msg.GetData()\<close>.\<close>

record Message =
  GetFrom :: string
  GetData :: string

text \<open>
  What the libraries answer to the calls of \<open>Announce\<close> and \<open>Join\<close>
  (go-libp2p, kad-dht, discovery, pubsub). \<open>goSchedule\<close> is the order in which
  the runtime runs the goroutines started for a list of seed addresses.
\<close>

record netenv =
  dhtNew :: "error option"
  dhtBootstrap :: "error option"
  DefaultBootstrapPeers :: "string list"
  AddrInfoFromP2pAddr :: "string \<Rightarrow> AddrInfo option"
  goSchedule :: "string list \<Rightarrow> string list"
  Connect :: "AddrInfo \<Rightarrow> error option"
  FindPeers :: "string \<Rightarrow> error + AddrInfo list"
  Pretty :: "string \<Rightarrow> string"
  pubsubJoin :: "string \<Rightarrow> error option"
  Subscribe :: "error option"

text \<open>
  What a run does, in order: the calls to the libraries and the log lines. A log
  line keeps its level, its format string and its arguments.
\<close>

datatype level = DebugLevel | InfoLevel | WarnLevel

datatype arg = S string | E error | P AddrInfo

datatype event =
    Log level string "arg list"
  | CallConnect AddrInfo
  | CallAdvertise string
  | CallFindPeers string
  | CallGetTopics
  | CallJoin string
  | CallSubscribe
  | CallAfterFunc int string "error option"
  | CallNext

text \<open>
  \<open>CallAfterFunc d payload r\<close> is \<open>time.AfterFunc(d, func() { topic.Publish(ctx,
  payload) })\<close>: the duration in nanoseconds, the bytes the callback publishes,
  and what \<open>Publish\<close> returns to the callback when the timer fires.

  How a function of the package ends: it returns, \<open>log.Panic(err)\<close> aborts
  the process, a nil dereference crashes it, or (the loop of \<open>Join\<close>) it is
  still waiting in \<open>Next\<close> when the observed messages are used up.
\<close>

datatype exit = Returned | LogPanic error | RuntimePanic | Waiting

subsection \<open>Announce\<close>

text \<open>
  Lines 105 to 118, the goroutines of the seed peers in the order they run.
  \<open>peerinfo, _ := peer.AddrInfoFromP2pAddr(peerAddr)\<close> drops the error, and the
  goroutine dereferences \<open>peerinfo\<close>. A goroutine logs a failed \<open>Connect\<close>
  with \<open>log.Warn\<close> and ends; \<open>wg.Wait()\<close> returns when all have ended.
\<close>

fun connectBootstrap :: "netenv \<Rightarrow> string list \<Rightarrow> event list \<times> exit" where
  "connectBootstrap env [] = ([], Returned)"
| "connectBootstrap env (peerAddr # rest) =
     (case AddrInfoFromP2pAddr env peerAddr of
        None \<Rightarrow> ([], RuntimePanic)
      | Some peerinfo \<Rightarrow>
          (let evs =
                 [CallConnect peerinfo,
                  (case Connect env peerinfo of
                     Some err \<Rightarrow> Log WarnLevel ''%v'' [E err]
                   | None \<Rightarrow>
                       Log InfoLevel ''Connection established with bootstrap node: %v''
                         [P peerinfo])];
               (evs', x) = connectBootstrap env rest
           in (evs @ evs', x)))"

text \<open>Lines 135 to 149, the loop over the channel of discovered peers.\<close>

fun connectPeers :: "Network \<Rightarrow> netenv \<Rightarrow> AddrInfo list \<Rightarrow> event list" where
  "connectPeers net env [] = []"
| "connectPeers net env (curPeer # rest) =
     (if ID curPeer = host_ID net then connectPeers net env rest
      else
        Log DebugLevel ''Connecting to: %s'' [S (Pretty env (ID curPeer))] #
        CallConnect curPeer #
        (case Connect env curPeer of
           Some err \<Rightarrow> Log WarnLevel ''Connection failed: %v'' [E err] # connectPeers net env rest
         | None \<Rightarrow>
             Log InfoLevel ''Connected to: %s'' [S (Pretty env (ID curPeer))] #
             connectPeers net env rest))"

definition Announce :: "Network \<Rightarrow> netenv \<Rightarrow> event list \<times> exit" where
  "Announce net env =
     (case dhtNew env of
        Some err \<Rightarrow> ([], LogPanic err)
      | None \<Rightarrow>
          (case dhtBootstrap env of
             Some err \<Rightarrow> ([Log DebugLevel ''Bootstrapping the DHT'' []], LogPanic err)
           | None \<Rightarrow>
               (let (seedEvents, x) =
                      connectBootstrap env (goSchedule env (DefaultBootstrapPeers env));
                    pre = Log DebugLevel ''Bootstrapping the DHT'' [] # seedEvents
                in if x \<noteq> Returned then (pre, x)
                   else
                     (let announce =
                            pre @
                            [Log InfoLevel ''Announcing ourselves...'' [],
                             CallAdvertise (Domain net),
                             Log DebugLevel ''Successfully announced!'' [],
                             Log DebugLevel ''Searching for other peers...'' [],
                             CallFindPeers (Domain net)]
                      in case FindPeers env (Domain net) of
                           Inl err \<Rightarrow> (announce, LogPanic err)
                         | Inr peerChan \<Rightarrow>
                             (announce @ connectPeers net env peerChan, Returned)))))"

subsection \<open>Join\<close>

text \<open>
  \<open>rand.Intn(n)\<close> of math/rand, for \<open>n\<close> that is not a power of two: the
  generator's 31-bit draws are rejected while they exceed a bound, and the
  result is \<open>v % n\<close> for the draw \<open>v\<close> that is accepted. The model takes
  \<open>v\<close> as input.
\<close>

definition Intn :: "int \<Rightarrow> nat \<Rightarrow> int" where
  "Intn n v = int v mod n"


text \<open>\<open>time.Second\<close>, in the nanoseconds of \<open>time.Duration\<close>.\<close>

definition Second :: int where
  "Second = 1000000000"

text \<open>
  One turn of the loop of \<open>Join\<close> (lines 167 to 176) for each observed return
  of \<open>helloWorld.Next\<close>: the draw that \<open>rand.Intn\<close> accepts, what
  \<open>topic.Publish\<close> returns when the timer fires, and what \<open>Next\<close> returns.
\<close>

record turn =
  draw :: nat
  published :: "error option"
  received :: "error + Message"

fun gossipLoop :: "Network \<Rightarrow> netenv \<Rightarrow> turn list \<Rightarrow> event list \<times> exit" where
  "gossipLoop net env [] = ([], Waiting)"
| "gossipLoop net env (t # rest) =
     (let evs =
            [CallAfterFunc (Intn 10 (draw t) * Second)
               (''Hello from:'' @ Pretty env (NodeID net)) (published t),
             CallNext]
      in case received t of
           Inl err \<Rightarrow> (evs, LogPanic err)
         | Inr msg \<Rightarrow>
             (let (evs', x) = gossipLoop net env rest
              in (evs @
                  Log DebugLevel ''Topic: %s from: %s data: %s''
                    [S ''hello'', S (GetFrom msg), S (GetData msg)] # evs', x)))"

definition Join :: "Network \<Rightarrow> netenv \<Rightarrow> turn list \<Rightarrow> event list \<times> exit" where
  "Join net env turns =
     (case pubsubJoin env ''hello'' of
        Some err \<Rightarrow> ([CallGetTopics, CallJoin ''hello''], LogPanic err)
      | None \<Rightarrow>
          (case Subscribe env of
             Some err \<Rightarrow> ([CallGetTopics, CallJoin ''hello'', CallSubscribe], LogPanic err)
           | None \<Rightarrow>
               (let (evs, x) = gossipLoop net env turns
                in ([CallGetTopics, CallJoin ''hello'', CallSubscribe] @ evs, x))))"

subsection \<open>Reading a run\<close>

text \<open>The peers of the \<open>Connect\<close> calls of a run, in order.\<close>

fun connects :: "event list \<Rightarrow> AddrInfo list" where
  "connects [] = []"
| "connects (CallConnect p # evs) = p # connects evs"
| "connects (_ # evs) = connects evs"

text \<open>The topic names of the \<open>pubsub.Join\<close> calls of a run.\<close>

fun joined :: "event list \<Rightarrow> string list" where
  "joined [] = []"
| "joined (CallJoin name # evs) = name # joined evs"
| "joined (_ # evs) = joined evs"




text \<open>The log lines of a level in a run.\<close>

fun logged :: "level \<Rightarrow> event list \<Rightarrow> event list" where
  "logged l [] = []"
| "logged l (Log l' f as # evs) = (if l' = l then Log l' f as # logged l evs else logged l evs)"
| "logged l (_ # evs) = logged l evs"

section \<open>What the model assumes of the libraries\<close>

text \<open>
  Two contracts of the libraries that the properties of saving and loading name
  as assumptions: \<open>json.Unmarshal\<close> reads back the record that
  \<open>json.Marshal\<close> wrote, and \<open>ConfigDecodeKey\<close> (base64) decodes what
  \<open>ConfigEncodeKey\<close> encoded.
\<close>

definition json_roundtrip :: "('sk, 'pk) lib \<Rightarrow> bool" where
  "json_roundtrip L = (\<forall>j s. jsonMarshal L j = Inr s \<longrightarrow> jsonUnmarshal L s = Inr j)"

definition base64_roundtrip :: "('sk, 'pk) lib \<Rightarrow> bool" where
  "base64_roundtrip L = (\<forall>b. ConfigDecodeKey L (ConfigEncodeKey L b) = Inr b)"

section \<open>A sample library and sample inputs\<close>

text \<open>
  A small implementation of the library interface, on which the model runs on
  concrete inputs and which shows that the two contracts can be met. A key is its
  raw bytes; as in the library, an Ed25519 private key has 64 bytes, the last 32
  of which are the public key. The text of a record is its type code in unary
  after a sign, a letter for \<open>signKey\<close>, and the key string.
\<close>

definition sampleEncodeKey :: "bytes \<Rightarrow> string" where
  "sampleEncodeKey b = map (\<lambda>w. char_of (unat w)) b"

definition sampleDecodeKey :: "string \<Rightarrow> error + bytes" where
  "sampleDecodeKey s = Inr (map (\<lambda>c. word_of_nat (of_char c)) s)"

definition sampleTypeText :: "int \<Rightarrow> string" where
  "sampleTypeText t = (if t < 0 then ''-'' else ''+'') @ replicate (nat \<bar>t\<bar>) CHR ''I''"

definition sampleMarshal :: "JSON \<Rightarrow> error + string" where
  "sampleMarshal j =
     Inr (sampleTypeText (KeyType j) @ (if SignKey j then ''T'' else ''F'') @ Key j)"

definition sampleUnmarshal :: "string \<Rightarrow> error + JSON" where
  "sampleUnmarshal s =
     (case s of
        [] \<Rightarrow> Inl (Err ''unexpected end of input'')
      | sign # body \<Rightarrow>
          (let n = int (length (takeWhile (\<lambda>c. c = CHR ''I'') body));
               t = (if sign = CHR ''-'' then - n else n)
           in case dropWhile (\<lambda>c. c = CHR ''I'') body of
                [] \<Rightarrow> Inl (Err ''unexpected end of input'')
              | flag # key \<Rightarrow>
                  (if flag = CHR ''T'' then Inr \<lparr>KeyType = t, SignKey = True, Key = key\<rparr>
                   else if flag = CHR ''F'' then Inr \<lparr>KeyType = t, SignKey = False, Key = key\<rparr>
                   else Inl (Err ''invalid character''))))"

definition samplePublic :: "bytes \<Rightarrow> bytes" where
  "samplePublic sk = drop 32 sk"

definition sampleGenerate :: "int \<Rightarrow> int \<Rightarrow> bytes \<Rightarrow> error + (bytes \<times> bytes)" where
  "sampleGenerate typ bits rnd =
     (if typ = Ed25519 \<and> 32 \<le> length rnd then
        (let seed = take 32 rnd; pub = map (\<lambda>w. w + 1) seed in Inr (seed @ pub, pub))
      else Inl (Err ''cannot generate key''))"

definition sampleLib :: "(bytes, bytes) lib" where
  "sampleLib =
     \<lparr>GenerateKeyPairWithReader = sampleGenerate,
      UnmarshalEd25519PrivateKey =
        (\<lambda>b. if length b = 64 then Inr b else Inl (Err ''expected ed25519 data size to be 64'')),
      UnmarshalSecp256k1PrivateKey =
        (\<lambda>b. if length b = 32 then Inr b else Inl (Err ''expected secp256k1 data size to be 32'')),
      UnmarshalEd25519PublicKey =
        (\<lambda>b. if length b = 32 then Inr b else Inl (Err ''expect ed25519 public key data size to be 32'')),
      GetPublic = samplePublic,
      PrivRaw = Inr,
      PubRaw = Inr,
      PrivSign = (\<lambda>sk data. Inr (samplePublic sk @ data)),
      PubVerify = (\<lambda>pk data sig. Inr (sig = pk @ data)),
      ConfigEncodeKey = sampleEncodeKey,
      ConfigDecodeKey = sampleDecodeKey,
      IDFromPublicKey = (\<lambda>pk. Inr (sampleEncodeKey pk)),
      jsonMarshal = sampleMarshal,
      jsonUnmarshal = sampleUnmarshal\<rparr>"

text \<open>
  Sample inputs: 32 random bytes, the key pair the sample library generates
  from them, a verify-only key pair, and a host where \<open>rsa.json\<close> holds a
  record of type 0 (RSA) with \<open>signKey\<close> set and where no file can be
  created at \<open>/missing/key.json\<close>.
\<close>

definition sampleRand :: bytes where
  "sampleRand = replicate 32 7"

definition sampleKey :: "(bytes, bytes) KeyPair" where
  "sampleKey =
     \<lparr>keyType = 1, privKey = Some (replicate 32 7 @ replicate 32 8),
      pubKey = Some (replicate 32 8)\<rparr>"

definition sampleVerifyKey :: "(bytes, bytes) KeyPair" where
  "sampleVerifyKey = \<lparr>keyType = 0, privKey = None, pubKey = Some (replicate 32 8)\<rparr>"

definition sampleFiles :: filesys where
  "sampleFiles =
     \<lparr>files = [''rsa.json'' \<mapsto> ''+TAB''],
      createFails =
        (\<lambda>p. if p = ''/missing/key.json'' then Some (Err ''no such file or directory'')
             else None),
      writeFails = (\<lambda>p. None)\<rparr>"

text \<open>The same host with a full disk: every \<open>Write\<close> fails.\<close>

definition sampleFullDisk :: filesys where
  "sampleFullDisk = sampleFiles\<lparr>writeFails := (\<lambda>p. Some (Err ''no space left on device''))\<rparr>"

text \<open>
  A sample node and its network: two seed peers, of which \<open>QmSeedB\<close>
  cannot be reached, goroutines that run in reverse order, and a discovery that
  yields an unreachable peer, the node itself and a reachable peer. In the sample
  turns of the gossip loop the first \<open>Publish\<close> fails.
\<close>

definition sampleNet :: Network where
  "sampleNet =
     \<lparr>BindHost = ''127.0.0.1'', BindPort = 4001, NodeID = ''QmSelf'',
      Domain = ''P2Sub::alpha::0.0.1'', host_ID = ''QmSelf''\<rparr>"

definition samplePeer :: "string \<Rightarrow> AddrInfo" where
  "samplePeer i = \<lparr>ID = i, Addrs = [''/ip4/10.0.0.1/tcp/4001'']\<rparr>"

definition sampleEnv :: netenv where
  "sampleEnv =
     \<lparr>dhtNew = None,
      dhtBootstrap = None,
      DefaultBootstrapPeers = [''/ip4/10.0.0.1/tcp/4001/p2p/QmSeedA'', ''/ip4/10.0.0.1/tcp/4001/p2p/QmSeedB''],
      AddrInfoFromP2pAddr =
        (\<lambda>a. if a = ''/ip4/10.0.0.1/tcp/4001/p2p/QmSeedA'' then Some (samplePeer ''QmSeedA'')
             else if a = ''/ip4/10.0.0.1/tcp/4001/p2p/QmSeedB'' then Some (samplePeer ''QmSeedB'')
             else None),
      goSchedule = rev,
      Connect =
        (\<lambda>p. if ID p = ''QmSeedB'' \<or> ID p = ''QmDown'' then Some (Err ''dial backoff'') else None),
      FindPeers = (\<lambda>d. Inr [samplePeer ''QmDown'', samplePeer ''QmSelf'', samplePeer ''QmUp'']),
      Pretty = (\<lambda>i. i),
      pubsubJoin = (\<lambda>name. None),
      Subscribe = None\<rparr>"

definition sampleTurns :: "turn list" where
  "sampleTurns =
     [\<lparr>draw = 13, published = Some (Err ''no peers''),
       received = Inr \<lparr>GetFrom = ''QmUp'', GetData = ''Hello from:QmUp''\<rparr>\<rparr>,
      \<lparr>draw = 7, published = None,
       received = Inr \<lparr>GetFrom = ''QmUp'', GetData = ''Hello from:QmUp''\<rparr>\<rparr>]"

definition sampleLastTurn :: turn where
  "sampleLastTurn =
     \<lparr>draw = 4, published = None, received = Inl (Err ''subscription cancelled'')\<rparr>"

section \<open>Properties of package keypair and of the start of main\<close>

subsection \<open>The sample library meets the contracts\<close>

lemma sample_takeWhile:
  "takeWhile (\<lambda>c. c = x) (replicate n x @ y # ys) = (if y = x then replicate n x @ takeWhile (\<lambda>c. c = x) (y # ys) else replicate n x)"
  by (induction n) auto

lemma sample_dropWhile:
  "y \<noteq> x \<Longrightarrow> dropWhile (\<lambda>c. c = x) (replicate n x @ y # ys) = y # ys"
  by (induction n) auto

lemma sampleLib_json_roundtrip: "json_roundtrip sampleLib"
  unfolding json_roundtrip_def sampleLib_def
  by (auto simp: sampleMarshal_def sampleUnmarshal_def sampleTypeText_def sample_takeWhile sample_dropWhile)

lemma sample_byte: "word_of_nat (unat (x::8 word) mod 256) = x"
  using unsigned_less [of x, where ?'a = nat] by simp

lemma sampleLib_base64_roundtrip: "base64_roundtrip sampleLib"
  unfolding base64_roundtrip_def sampleLib_def
  by (simp add: sampleEncodeKey_def sampleDecodeKey_def comp_def sample_byte)

lemma sample_New: "New sampleLib Ed25519 256 sampleRand = Ret sampleKey"
  by (simp add: New_def sampleLib_def sampleGenerate_def sampleRand_def sampleKey_def
        Ed25519_def Let_def)

lemma sample_Save:
  "fst (SaveToFile sampleLib sampleKey ''key.json'' sampleFiles) = Ret True"
  by (simp add: SaveToFile_def writeToJSON_def isAbleToSign_def sampleLib_def sampleKey_def
        sampleFiles_def sampleMarshal_def sampleTypeText_def Let_def)

subsection \<open>What SaveToFile writes and what LoadFromFile makes of it\<close>

lemma FromPrivateKey_other_type:
  "typ \<noteq> Ed25519 \<Longrightarrow> typ \<noteq> Secp256k1 \<Longrightarrow> FromPrivateKey L typ b = Panic"
  by (simp add: FromPrivateKey_def)

lemma SaveToFile_signing_written:
  assumes "privKey k = Some sk" and "SaveToFile L k path fs = (Ret r, fs')"
  shows "\<exists>key s. PrivRaw L sk = Inr key \<and>
           jsonMarshal L \<lparr>KeyType = 0, SignKey = True, Key = ConfigEncodeKey L key\<rparr> = Inr s \<and>
           files fs' path = Some s"
  using assms
  by (auto simp: SaveToFile_def writeToJSON_def isAbleToSign_def Let_def
           split: option.splits sum.splits)

lemma SaveToFile_verify_only_written:
  assumes "privKey k = None" and "SaveToFile L k path fs = (Ret r, fs')"
  shows "\<exists>pk key s. pubKey k = Some pk \<and> PubRaw L pk = Inr key \<and>
           jsonMarshal L \<lparr>KeyType = 0, SignKey = False, Key = ConfigEncodeKey L key\<rparr> = Inr s \<and>
           files fs' path = Some s"
  using assms
  by (auto simp: SaveToFile_def writeToJSON_def isAbleToSign_def Let_def
           split: option.splits sum.splits)

lemma LoadFromFile_other_type:
  assumes "files fs path = Some content" and "jsonUnmarshal L content = Inr j"
    and "SignKey j" and "KeyType j \<noteq> Ed25519" and "KeyType j \<noteq> Secp256k1"
    and "ConfigDecodeKey L (Key j) = Inr raw"
  shows "LoadFromFile L path fs = Panic"
  using assms
  by (simp add: LoadFromFile_def FromBase64PrivateKey_def FromPrivateKey_other_type)

lemma save_then_load_signing:
  assumes "json_roundtrip L" and "base64_roundtrip L"
    and "privKey k = Some sk" and "SaveToFile L k path fs = (Ret r, fs')"
  shows "LoadFromFile L path fs' = Panic"
proof -
  from SaveToFile_signing_written [OF assms(3,4)] obtain key s where
    m: "jsonMarshal L \<lparr>KeyType = 0, SignKey = True, Key = ConfigEncodeKey L key\<rparr> = Inr s"
    and f: "files fs' path = Some s" by blast
  from assms(1) m have u:
    "jsonUnmarshal L s = Inr \<lparr>KeyType = 0, SignKey = True, Key = ConfigEncodeKey L key\<rparr>"
    by (simp add: json_roundtrip_def)
  from assms(2) have d: "ConfigDecodeKey L (ConfigEncodeKey L key) = Inr key"
    by (simp add: base64_roundtrip_def)
  show ?thesis
    by (rule LoadFromFile_other_type [OF f u]) (simp_all add: d Ed25519_def Secp256k1_def)
qed

lemma save_then_load_verify_only:
  assumes "json_roundtrip L" and "base64_roundtrip L"
    and "privKey k = None" and "pubKey k = Some pk"
    and "PubRaw L pk = Inr raw" and "UnmarshalEd25519PublicKey L raw = Inr pk"
    and "SaveToFile L k path fs = (Ret r, fs')"
  shows "LoadFromFile L path fs' = Ret \<lparr>keyType = 0, privKey = None, pubKey = Some pk\<rparr>"
proof -
  from SaveToFile_verify_only_written [OF assms(3,7)] assms(4,5) obtain s where
    m: "jsonMarshal L \<lparr>KeyType = 0, SignKey = False, Key = ConfigEncodeKey L raw\<rparr> = Inr s"
    and f: "files fs' path = Some s" by auto
  from assms(1) m have
    "jsonUnmarshal L s = Inr \<lparr>KeyType = 0, SignKey = False, Key = ConfigEncodeKey L raw\<rparr>"
    by (simp add: json_roundtrip_def)
  moreover from assms(2) have "ConfigDecodeKey L (ConfigEncodeKey L raw) = Inr raw"
    by (simp add: base64_roundtrip_def)
  ultimately show ?thesis
    using f assms(6)
    by (simp add: LoadFromFile_def FromBase64PublicKey_def FromPublicKey_def)
qed

lemma New_Ret:
  "New L typ bits rnd = Ret k \<Longrightarrow> keyType k = typ \<and> privKey k \<noteq> None \<and> pubKey k \<noteq> None"
  by (auto simp: New_def split: sum.splits prod.splits)

lemma LoadFromFile_malformed_key_fails:
  assumes "files fs path = Some content" and "jsonUnmarshal L content = Inr j"
    and "SignKey j" and "ConfigDecodeKey L (Key j) = Inr raw"
    and "KeyType j = Ed25519 \<and> UnmarshalEd25519PrivateKey L raw = Inl e \<or>
         KeyType j = Secp256k1 \<and> UnmarshalSecp256k1PrivateKey L raw = Inl e"
  shows "LoadFromFile L path fs = Fail e"
  using assms
  by (auto simp: LoadFromFile_def FromBase64PrivateKey_def FromPrivateKey_def unmarshalled_def
        Ed25519_def Secp256k1_def)

text \<open>
  Claim C1 (saving a key pair and loading it again gives back the same algorithm
  and key material). The code does not do this for a key pair that can sign:
  \<open>SaveToFile\<close> never assigns \<open>KeyType\<close>, so the record it writes has type 0,
  and \<open>LoadFromFile\<close> passes that type to \<open>FromPrivateKey\<close>, which handles
  Ed25519 (1) and Secp256k1 (2) only and dereferences a nil key for any other
  type. Whenever a generated key pair of any type has been saved, with libraries
  that meet the two contracts, loading the written file panics.
\<close>

theorem roundtrip_signing_key_panics:
  assumes "json_roundtrip L" and "base64_roundtrip L"
    and "New L typ bits rnd = Ret k" and "SaveToFile L k path fs = (Ret r, fs')"
  shows "keyType k = typ \<and> LoadFromFile L path fs' = Panic"
proof -
  from New_Ret [OF assms(3)] obtain sk where "keyType k = typ" "privKey k = Some sk" by auto
  then show ?thesis using save_then_load_signing [OF assms(1,2) _ assms(4)] by simp
qed

text \<open>
  The theorem at the sample key pair: generated as Ed25519, saved with result
  true, and loading the written file panics.
\<close>

theorem roundtrip_signing_key_panics_witness:
  "New sampleLib Ed25519 256 sampleRand = Ret sampleKey \<and>
   fst (SaveToFile sampleLib sampleKey ''key.json'' sampleFiles) = Ret True \<and>
   keyType sampleKey = Ed25519 \<and>
   LoadFromFile sampleLib ''key.json''
     (snd (SaveToFile sampleLib sampleKey ''key.json'' sampleFiles)) = Panic"
proof -
  have s: "SaveToFile sampleLib sampleKey ''key.json'' sampleFiles =
      (Ret True, snd (SaveToFile sampleLib sampleKey ''key.json'' sampleFiles))"
    using sample_Save by (simp add: prod_eq_iff)
  show ?thesis
    using roundtrip_signing_key_panics
      [OF sampleLib_json_roundtrip sampleLib_base64_roundtrip sample_New s]
      sample_New sample_Save
    by simp
qed

text \<open>
  Claim C2 (a start with no key file generates and saves a key pair, and a second
  start on the same path loads the same identity). The first start does generate,
  save and go on; the second start finds the file, and \<open>LoadFromFile\<close> panics
  on the record of type 0 that the first start wrote, so the second start crashes
  and loads no identity.
\<close>

theorem second_startup_crashes:
  assumes "json_roundtrip L" and "base64_roundtrip L"
    and "files fs keyfile = None"
    and "New L Ed25519 256 rnd = Ret k" and "SaveToFile L k keyfile fs = (Ret r, fs')"
  shows "main_nodeKey L keyfile rnd fs = (Proceed k, fs') \<and>
         main_nodeKey L keyfile rnd' fs' = (Crashed, fs')"
proof -
  from New_Ret [OF assms(4)] obtain sk where sk: "privKey k = Some sk" by auto
  have l: "LoadFromFile L keyfile fs' = Panic"
    by (rule save_then_load_signing [OF assms(1,2) sk assms(5)])
  from SaveToFile_signing_written [OF sk assms(5)] have e: "files fs' keyfile \<noteq> None" by auto
  show ?thesis using assms(3,4,5) l e by (auto simp: main_nodeKey_def)
qed

text \<open>
  The theorem at the sample inputs: the first start goes on with the sample key
  pair, the second start on the files it left crashes.
\<close>

theorem second_startup_crashes_witness:
  "main_nodeKey sampleLib ''key.json'' sampleRand sampleFiles =
     (Proceed sampleKey, snd (SaveToFile sampleLib sampleKey ''key.json'' sampleFiles)) \<and>
   main_nodeKey sampleLib ''key.json'' sampleRand
     (snd (SaveToFile sampleLib sampleKey ''key.json'' sampleFiles)) =
     (Crashed, snd (SaveToFile sampleLib sampleKey ''key.json'' sampleFiles))"
proof -
  have f: "files sampleFiles ''key.json'' = None"
    by (simp add: sampleFiles_def)
  have s: "SaveToFile sampleLib sampleKey ''key.json'' sampleFiles =
      (Ret True, snd (SaveToFile sampleLib sampleKey ''key.json'' sampleFiles))"
    using sample_Save by (simp add: prod_eq_iff)
  show ?thesis
    by (rule second_startup_crashes
      [OF sampleLib_json_roundtrip sampleLib_base64_roundtrip f sample_New s])
qed

text \<open>
  Claim C3 (signing with a key pair that has no private key fails with an error
  value, and the record such a key pair saves has \<open>signKey\<close> false). For a key
  pair restored by \<open>FromPublicKey\<close>, \<open>Sign\<close> calls a method of the nil
  private key and panics; it returns no error value. The second half holds:
  the record read back from a file that \<open>SaveToFile\<close> wrote for such a key pair
  has \<open>signKey\<close> false.
\<close>

theorem Sign_verify_only_panics:
  assumes "FromPublicKey L b = Ret k"
  shows "Sign L k data = Panic \<and>
         (json_roundtrip L \<and> SaveToFile L k path fs = (Ret r, fs') \<longrightarrow>
            (\<exists>s j. files fs' path = Some s \<and> jsonUnmarshal L s = Inr j \<and> \<not> SignKey j))"
proof -
  from assms have p: "privKey k = None"
    by (auto simp: FromPublicKey_def split: sum.splits)
  then have "Sign L k data = Panic" by (simp add: Sign_def)
  moreover have "\<exists>s j. files fs' path = Some s \<and> jsonUnmarshal L s = Inr j \<and> \<not> SignKey j"
    if "json_roundtrip L" and "SaveToFile L k path fs = (Ret r, fs')"
    using SaveToFile_verify_only_written [OF p that(2)] that(1)
    by (fastforce simp: json_roundtrip_def)
  ultimately show ?thesis by blast
qed

text \<open>
  The theorem at the sample verify-only key pair.
\<close>

theorem Sign_verify_only_panics_witness:
  "FromPublicKey sampleLib (replicate 32 8) = Ret sampleVerifyKey \<and>
   Sign sampleLib sampleVerifyKey [1, 2, 3] = Panic \<and>
   (\<exists>s j. files (snd (SaveToFile sampleLib sampleVerifyKey ''pub.json'' sampleFiles)) ''pub.json''
             = Some s \<and>
          jsonUnmarshal sampleLib s = Inr j \<and> \<not> SignKey j)"
proof -
  have p: "FromPublicKey sampleLib (replicate 32 8) = Ret sampleVerifyKey"
    by (simp add: FromPublicKey_def sampleLib_def sampleVerifyKey_def)
  have "fst (SaveToFile sampleLib sampleVerifyKey ''pub.json'' sampleFiles) = Ret True"
    by (simp add: SaveToFile_def writeToJSON_def isAbleToSign_def sampleLib_def
        sampleVerifyKey_def sampleFiles_def sampleMarshal_def sampleTypeText_def Let_def)
  then have s: "SaveToFile sampleLib sampleVerifyKey ''pub.json'' sampleFiles =
      (Ret True, snd (SaveToFile sampleLib sampleVerifyKey ''pub.json'' sampleFiles))"
    by (simp add: prod_eq_iff)
  show ?thesis
    using Sign_verify_only_panics [OF p, of "[1, 2, 3]" "''pub.json''" sampleFiles True
        "snd (SaveToFile sampleLib sampleVerifyKey ''pub.json'' sampleFiles)"]
      p s sampleLib_json_roundtrip
    by simp
qed

text \<open>
  Claim C4 (loading a record with \<open>signKey\<close> true whose key is no valid private
  key for its type, an unsupported type included, returns an error and never
  panics). For a type other than Ed25519 and Secp256k1 and a key string that
  base64 decodes, \<open>FromPrivateKey\<close> panics, and so does \<open>LoadFromFile\<close>.
  (For the two supported types, bytes that the library rejects do give an error:
  lemma \<open>LoadFromFile_malformed_key_fails\<close>.)
\<close>

theorem LoadFromFile_unsupported_type_panics:
  assumes "files fs path = Some content" and "jsonUnmarshal L content = Inr j"
    and "SignKey j" and "KeyType j \<noteq> Ed25519" and "KeyType j \<noteq> Secp256k1"
    and "ConfigDecodeKey L (Key j) = Inr raw"
  shows "FromPrivateKey L (KeyType j) raw = Panic \<and> LoadFromFile L path fs = Panic"
  using assms FromPrivateKey_other_type [of "KeyType j" L raw] LoadFromFile_other_type [OF assms]
  by simp

text \<open>
  The theorem at the sample file \<open>rsa.json\<close>, a record of type 0.
\<close>

theorem LoadFromFile_unsupported_type_panics_witness:
  "files sampleFiles ''rsa.json'' = Some ''+TAB'' \<and>
   jsonUnmarshal sampleLib ''+TAB'' = Inr \<lparr>KeyType = RSA, SignKey = True, Key = ''AB''\<rparr> \<and>
   ConfigDecodeKey sampleLib ''AB'' = Inr [65, 66] \<and>
   FromPrivateKey sampleLib RSA [65, 66] = Panic \<and>
   LoadFromFile sampleLib ''rsa.json'' sampleFiles = Panic"
proof -
  have f: "files sampleFiles ''rsa.json'' = Some ''+TAB''"
    by (simp add: sampleFiles_def)
  have u: "jsonUnmarshal sampleLib ''+TAB'' = Inr \<lparr>KeyType = RSA, SignKey = True, Key = ''AB''\<rparr>"
    by (simp add: sampleLib_def sampleUnmarshal_def RSA_def)
  have d: "ConfigDecodeKey sampleLib (Key \<lparr>KeyType = RSA, SignKey = True, Key = ''AB''\<rparr>) = Inr [65, 66]"
    by (simp add: sampleLib_def sampleDecodeKey_def)
  show ?thesis
    using LoadFromFile_unsupported_type_panics [OF f u _ _ _ d] f u d
    by (simp add: RSA_def Ed25519_def Secp256k1_def)
qed

text \<open>
  What \<open>main\<close> does when the key cannot be saved, at the sample host: where the
  file cannot be created, \<open>SaveToFile\<close> returns the error and \<open>main\<close> goes
  on to \<open>network.New\<close> with a key pair that is in no file, so the next start
  generates another identity; where the disk is full, \<open>os.Create\<close> leaves an
  empty file, \<open>main\<close> goes on all the same, and the next start takes the load
  branch and aborts on the empty file.
\<close>

lemma persist_error_ignored:
  "New sampleLib Ed25519 256 sampleRand = Ret sampleKey \<and>
   SaveToFile sampleLib sampleKey ''/missing/key.json'' sampleFiles =
     (Fail (Err ''no such file or directory''), sampleFiles) \<and>
   main_nodeKey sampleLib ''/missing/key.json'' sampleRand sampleFiles =
     (Proceed sampleKey, sampleFiles)"
proof -
  have s: "SaveToFile sampleLib sampleKey ''/missing/key.json'' sampleFiles =
     (Fail (Err ''no such file or directory''), sampleFiles)"
    by (simp add: SaveToFile_def sampleFiles_def)
  have f: "files sampleFiles ''/missing/key.json'' = None"
    by (simp add: sampleFiles_def)
  show ?thesis
    using s f sample_New by (simp add: main_nodeKey_def)
qed

lemma persist_error_full_disk:
  "main_nodeKey sampleLib ''key.json'' sampleRand sampleFullDisk =
     (Proceed sampleKey, sampleFullDisk\<lparr>files := (files sampleFullDisk)(''key.json'' \<mapsto> [])\<rparr>) \<and>
   main_nodeKey sampleLib ''key.json'' sampleRand
       (sampleFullDisk\<lparr>files := (files sampleFullDisk)(''key.json'' \<mapsto> [])\<rparr>) =
     (Aborted (Err ''unexpected end of input''),
      sampleFullDisk\<lparr>files := (files sampleFullDisk)(''key.json'' \<mapsto> [])\<rparr>)"
proof -
  have s: "SaveToFile sampleLib sampleKey ''key.json'' sampleFullDisk =
     (Fail (Err ''no space left on device''),
      sampleFullDisk\<lparr>files := (files sampleFullDisk)(''key.json'' \<mapsto> [])\<rparr>)"
    by (simp add: SaveToFile_def writeToJSON_def isAbleToSign_def sampleLib_def sampleKey_def
        sampleFullDisk_def sampleFiles_def sampleMarshal_def Let_def)
  have f: "files sampleFullDisk ''key.json'' = None"
    by (simp add: sampleFullDisk_def sampleFiles_def)
  have l: "LoadFromFile sampleLib ''key.json''
      (sampleFullDisk\<lparr>files := (files sampleFullDisk)(''key.json'' \<mapsto> [])\<rparr>) =
      Fail (Err ''unexpected end of input'')"
    by (simp add: LoadFromFile_def sampleLib_def sampleUnmarshal_def)
  show ?thesis
    using s f l sample_New by (simp add: main_nodeKey_def)
qed

text \<open>
  Claim C6 (every error of generating, loading or saving the key at the start
  aborts the process; the node never goes on after one of them). The code does
  this for two of the three: an error of \<open>New\<close> and an error of
  \<open>LoadFromFile\<close> reach \<open>log.Panic\<close>. It does not for the third: \<open>main\<close>
  drops both results of \<open>SaveToFile\<close>, and after an error of saving control
  reaches \<open>network.New\<close> with the generated key pair.
\<close>

theorem startup_errors:
  "(files fs keyfile = None \<and> New L Ed25519 256 rnd = Fail e \<longrightarrow>
      main_nodeKey L keyfile rnd fs = (Aborted e, fs)) \<and>
   (files fs keyfile \<noteq> None \<and> LoadFromFile L keyfile fs = Fail e \<longrightarrow>
      main_nodeKey L keyfile rnd fs = (Aborted e, fs)) \<and>
   (files fs keyfile = None \<and> New L Ed25519 256 rnd = Ret k \<and>
    SaveToFile L k keyfile fs = (Fail e, fs') \<longrightarrow>
      main_nodeKey L keyfile rnd fs = (Proceed k, fs'))"
  by (auto simp: main_nodeKey_def)

text \<open>
  The theorem at the sample inputs: no random bytes (generation fails), a file
  with a truncated record (loading fails), and the path where no file can be
  created (saving fails).
\<close>

theorem startup_errors_witness:
  "main_nodeKey sampleLib ''key.json'' [] sampleFiles =
     (Aborted (Err ''cannot generate key''), sampleFiles) \<and>
   main_nodeKey sampleLib ''rsa.json'' sampleRand
       (sampleFiles\<lparr>files := [''rsa.json'' \<mapsto> ''+'']\<rparr>) =
     (Aborted (Err ''unexpected end of input''), sampleFiles\<lparr>files := [''rsa.json'' \<mapsto> ''+'']\<rparr>) \<and>
   main_nodeKey sampleLib ''/missing/key.json'' sampleRand sampleFiles =
     (Proceed sampleKey, sampleFiles)"
proof -
  have g: "files sampleFiles ''key.json'' = None \<and>
      New sampleLib Ed25519 256 [] = Fail (Err ''cannot generate key'')"
    by (simp add: sampleFiles_def New_def sampleLib_def sampleGenerate_def)
  have l: "files (sampleFiles\<lparr>files := [''rsa.json'' \<mapsto> ''+'']\<rparr>) ''rsa.json'' \<noteq> None \<and>
      LoadFromFile sampleLib ''rsa.json'' (sampleFiles\<lparr>files := [''rsa.json'' \<mapsto> ''+'']\<rparr>) =
        Fail (Err ''unexpected end of input'')"
    by (simp add: LoadFromFile_def sampleLib_def sampleUnmarshal_def)
  have s: "files sampleFiles ''/missing/key.json'' = None \<and>
      New sampleLib Ed25519 256 sampleRand = Ret sampleKey \<and>
      SaveToFile sampleLib sampleKey ''/missing/key.json'' sampleFiles =
        (Fail (Err ''no such file or directory''), sampleFiles)"
    using sample_New by (simp add: SaveToFile_def sampleFiles_def)
  show ?thesis
    using startup_errors [of sampleFiles "''key.json''" sampleLib "[]" "Err ''cannot generate key''"]
      startup_errors [of "sampleFiles\<lparr>files := [''rsa.json'' \<mapsto> ''+'']\<rparr>" "''rsa.json''" sampleLib
        sampleRand "Err ''unexpected end of input''"]
      startup_errors [of sampleFiles "''/missing/key.json''" sampleLib sampleRand
        "Err ''no such file or directory''" sampleKey sampleFiles]
      g l s
    by blast
qed

section \<open>Properties of package network\<close>

subsection \<open>Announce\<close>

lemma connectBootstrap_exit:
  "(\<forall>a\<in>set as. AddrInfoFromP2pAddr env a \<noteq> None) \<Longrightarrow> snd (connectBootstrap env as) = Returned"
  by (induction as) (auto split: prod.splits)

lemma connectBootstrap_connects:
  "(\<forall>a\<in>set as. AddrInfoFromP2pAddr env a \<noteq> None) \<Longrightarrow>
   connects (fst (connectBootstrap env as)) = List.map_filter (AddrInfoFromP2pAddr env) as"
  by (induction as) (auto simp: List.map_filter_simps split: prod.splits option.splits)

lemma connectBootstrap_warnings:
  "(\<forall>a\<in>set as. AddrInfoFromP2pAddr env a \<noteq> None) \<Longrightarrow>
   length (logged WarnLevel (fst (connectBootstrap env as))) =
   length (filter (\<lambda>p. Connect env p \<noteq> None) (connects (fst (connectBootstrap env as))))"
  by (induction as) (auto split: prod.splits option.splits)

lemma mset_map_filter:
  "mset xs = mset ys \<Longrightarrow> mset (List.map_filter f xs) = mset (List.map_filter f ys)"
proof -
  assume "mset xs = mset ys"
  then have "image_mset (the \<circ> f) (filter_mset (\<lambda>x. f x \<noteq> None) (mset xs)) =
             image_mset (the \<circ> f) (filter_mset (\<lambda>x. f x \<noteq> None) (mset ys))" by simp
  then show ?thesis by (simp add: List.map_filter_def)
qed

lemma length_map_filter_all:
  "(\<forall>a\<in>set as. f a \<noteq> None) \<Longrightarrow> length (List.map_filter f as) = length as"
  by (induction as) (auto simp: List.map_filter_simps split: option.splits)

lemma sample_Announce:
  "Announce sampleNet sampleEnv =
     ([Log DebugLevel ''Bootstrapping the DHT'' [],
       CallConnect (samplePeer ''QmSeedB''),
       Log WarnLevel ''%v'' [E (Err ''dial backoff'')],
       CallConnect (samplePeer ''QmSeedA''),
       Log InfoLevel ''Connection established with bootstrap node: %v'' [P (samplePeer ''QmSeedA'')],
       Log InfoLevel ''Announcing ourselves...'' [],
       CallAdvertise ''P2Sub::alpha::0.0.1'',
       Log DebugLevel ''Successfully announced!'' [],
       Log DebugLevel ''Searching for other peers...'' [],
       CallFindPeers ''P2Sub::alpha::0.0.1'',
       Log DebugLevel ''Connecting to: %s'' [S ''QmDown''],
       CallConnect (samplePeer ''QmDown''),
       Log WarnLevel ''Connection failed: %v'' [E (Err ''dial backoff'')],
       Log DebugLevel ''Connecting to: %s'' [S ''QmUp''],
       CallConnect (samplePeer ''QmUp''),
       Log InfoLevel ''Connected to: %s'' [S ''QmUp'']],
      Returned)"
  by (simp add: Announce_def sampleNet_def sampleEnv_def samplePeer_def Let_def)

text \<open>
  Claim C7 (whatever the seed connections give, \<open>Announce\<close> waits for all of
  them, logs failures as warnings, and goes on to advertise and to find peers;
  no number of successes is required). When the DHT starts and the seed
  addresses parse (they are the library's built-in list), then for every
  \<open>Connect\<close> behaviour and every order of the goroutines: the run consists of
  the seed events, then the advertisement and the search; the seed events hold
  one \<open>Connect\<close> for each seed; each failed one is one warning; and how
  \<open>Announce\<close> ends depends on \<open>FindPeers\<close> alone.
\<close>

theorem Announce_tolerates_seed_failures:
  assumes "dhtNew env = None" and "dhtBootstrap env = None"
    and "\<forall>a\<in>set (DefaultBootstrapPeers env). AddrInfoFromP2pAddr env a \<noteq> None"
    and "mset (goSchedule env (DefaultBootstrapPeers env)) = mset (DefaultBootstrapPeers env)"
  shows "\<exists>seedEvents rest.
           fst (Announce net env) =
             Log DebugLevel ''Bootstrapping the DHT'' [] # seedEvents @
             [Log InfoLevel ''Announcing ourselves...'' [],
              CallAdvertise (Domain net),
              Log DebugLevel ''Successfully announced!'' [],
              Log DebugLevel ''Searching for other peers...'' [],
              CallFindPeers (Domain net)] @ rest \<and>
           mset (connects seedEvents) =
             mset (List.map_filter (AddrInfoFromP2pAddr env) (DefaultBootstrapPeers env)) \<and>
           length (connects seedEvents) = length (DefaultBootstrapPeers env) \<and>
           length (logged WarnLevel seedEvents) =
             length (filter (\<lambda>p. Connect env p \<noteq> None) (connects seedEvents)) \<and>
           snd (Announce net env) =
             (case FindPeers env (Domain net) of Inl err \<Rightarrow> LogPanic err | Inr peers \<Rightarrow> Returned)"
proof -
  let ?sched = "goSchedule env (DefaultBootstrapPeers env)"
  let ?seedEvents = "fst (connectBootstrap env ?sched)"
  from assms(3,4) have all: "\<forall>a\<in>set ?sched. AddrInfoFromP2pAddr env a \<noteq> None"
    by (metis set_mset_mset)
  have x: "snd (connectBootstrap env ?sched) = Returned"
    by (rule connectBootstrap_exit [OF all])
  have c: "connects ?seedEvents = List.map_filter (AddrInfoFromP2pAddr env) ?sched"
    by (rule connectBootstrap_connects [OF all])
  have m: "mset (connects ?seedEvents) =
      mset (List.map_filter (AddrInfoFromP2pAddr env) (DefaultBootstrapPeers env))"
    using c mset_map_filter [OF assms(4)] by simp
  have l: "length (connects ?seedEvents) = length (DefaultBootstrapPeers env)"
    using c length_map_filter_all [OF all] assms(4) by (metis size_mset)
  have w: "length (logged WarnLevel ?seedEvents) =
      length (filter (\<lambda>p. Connect env p \<noteq> None) (connects ?seedEvents))"
    by (rule connectBootstrap_warnings [OF all])
  show ?thesis
  proof (cases "FindPeers env (Domain net)")
    case (Inl err)
    have "fst (Announce net env) =
        Log DebugLevel ''Bootstrapping the DHT'' [] # ?seedEvents @
        [Log InfoLevel ''Announcing ourselves...'' [],
         CallAdvertise (Domain net),
         Log DebugLevel ''Successfully announced!'' [],
         Log DebugLevel ''Searching for other peers...'' [],
         CallFindPeers (Domain net)] @ []"
      and "snd (Announce net env) = LogPanic err"
      using assms(1,2) x Inl by (simp_all add: Announce_def split_beta)
    with m l w Inl show ?thesis by (intro exI [of _ ?seedEvents] exI [of _ "[]"]) simp
  next
    case (Inr peers)
    have "fst (Announce net env) =
        Log DebugLevel ''Bootstrapping the DHT'' [] # ?seedEvents @
        [Log InfoLevel ''Announcing ourselves...'' [],
         CallAdvertise (Domain net),
         Log DebugLevel ''Successfully announced!'' [],
         Log DebugLevel ''Searching for other peers...'' [],
         CallFindPeers (Domain net)] @ connectPeers net env peers"
      and "snd (Announce net env) = Returned"
      using assms(1,2) x Inr by (simp_all add: Announce_def split_beta)
    with m l w Inr show ?thesis
      by (intro exI [of _ ?seedEvents] exI [of _ "connectPeers net env peers"]) simp
  qed
qed

text \<open>
  The theorem at the sample network, where one seed connects and one fails.
\<close>

theorem Announce_tolerates_seed_failures_witness:
  "Connect sampleEnv (samplePeer ''QmSeedB'') = Some (Err ''dial backoff'') \<and>
   Connect sampleEnv (samplePeer ''QmSeedA'') = None \<and>
   (\<exists>seedEvents rest.
      fst (Announce sampleNet sampleEnv) =
        Log DebugLevel ''Bootstrapping the DHT'' [] # seedEvents @
        [Log InfoLevel ''Announcing ourselves...'' [],
         CallAdvertise (Domain sampleNet),
         Log DebugLevel ''Successfully announced!'' [],
         Log DebugLevel ''Searching for other peers...'' [],
         CallFindPeers (Domain sampleNet)] @ rest \<and>
      mset (connects seedEvents) = mset [samplePeer ''QmSeedA'', samplePeer ''QmSeedB''] \<and>
      length (connects seedEvents) = 2 \<and>
      length (logged WarnLevel seedEvents) =
        length (filter (\<lambda>p. Connect sampleEnv p \<noteq> None) (connects seedEvents))) \<and>
   snd (Announce sampleNet sampleEnv) = Returned"
proof -
  have h: "dhtNew sampleEnv = None" "dhtBootstrap sampleEnv = None"
    "\<forall>a\<in>set (DefaultBootstrapPeers sampleEnv). AddrInfoFromP2pAddr sampleEnv a \<noteq> None"
    "mset (goSchedule sampleEnv (DefaultBootstrapPeers sampleEnv)) =
     mset (DefaultBootstrapPeers sampleEnv)"
    by (simp_all add: sampleEnv_def)
  have m: "List.map_filter (AddrInfoFromP2pAddr sampleEnv) (DefaultBootstrapPeers sampleEnv) =
      [samplePeer ''QmSeedA'', samplePeer ''QmSeedB'']"
    by (simp add: sampleEnv_def List.map_filter_simps)
  have l: "length (DefaultBootstrapPeers sampleEnv) = 2"
    "FindPeers sampleEnv (Domain sampleNet) =
       Inr [samplePeer ''QmDown'', samplePeer ''QmSelf'', samplePeer ''QmUp'']"
    by (simp_all add: sampleEnv_def)
  have c: "Connect sampleEnv (samplePeer ''QmSeedB'') = Some (Err ''dial backoff'')"
    "Connect sampleEnv (samplePeer ''QmSeedA'') = None"
    by (simp_all add: sampleEnv_def samplePeer_def)
  show ?thesis
    using Announce_tolerates_seed_failures [OF h, of sampleNet] c
    unfolding m l by auto
qed

text \<open>
  Claim C8 (no \<open>Connect\<close> is issued for a discovered peer whose identifier is
  the node's own, and the loop moves on). The \<open>Connect\<close> calls of the loop
  over the discovered peers are exactly the peers with another identifier, in
  their order.
\<close>

theorem connectPeers_skips_self:
  "connects (connectPeers net env peers) = filter (\<lambda>p. ID p \<noteq> host_ID net) peers"
  by (induction peers) (auto split: option.splits)

subsection \<open>Join\<close>

lemma gossipLoop_joined: "joined (fst (gossipLoop net env turns)) = []"
  by (induction turns) (auto simp: Let_def split_beta split: sum.splits)







lemma gossipLoop_receive_error:
  "list_all (\<lambda>t. \<not> isl (received t)) ts \<Longrightarrow> received t = Inl e \<Longrightarrow>
   snd (gossipLoop net env (ts @ t # rest)) = LogPanic e"
  by (induction ts) (auto simp: Let_def split_beta split: sum.splits)

lemma gossipLoop_exit_received:
  "map received ts = map received ts' \<Longrightarrow>
   snd (gossipLoop net env ts) = snd (gossipLoop net env ts')"
proof (induction ts arbitrary: ts')
  case Nil
  then show ?case by simp
next
  case (Cons t ts)
  then obtain t' rest where "ts' = t' # rest" by (cases ts') auto
  with Cons show ?case by (auto simp: Let_def split_beta split: sum.splits)
qed

text \<open>
  Claim C5 as stated (a connection error during discovery does not abort, while
  a publish error and a receive error in the gossip loop each abort) fails for
  publishing: in the sample run the first \<open>Publish\<close> returns an error, the loop
  goes on to the next turn, and \<open>Join\<close> is still waiting at the end.
\<close>

theorem publish_error_counterexample:
  "published (hd sampleTurns) = Some (Err ''no peers'') \<and>
   Join sampleNet sampleEnv sampleTurns =
     ([CallGetTopics, CallJoin ''hello'', CallSubscribe,
       CallAfterFunc 3000000000 ''Hello from:QmSelf'' (Some (Err ''no peers'')),
       CallNext,
       Log DebugLevel ''Topic: %s from: %s data: %s'' [S ''hello'', S ''QmUp'', S ''Hello from:QmUp''],
       CallAfterFunc 7000000000 ''Hello from:QmSelf'' None,
       CallNext,
       Log DebugLevel ''Topic: %s from: %s data: %s'' [S ''hello'', S ''QmUp'', S ''Hello from:QmUp'']],
      Waiting)"
  by (simp add: Join_def sampleNet_def sampleEnv_def sampleTurns_def Intn_def Second_def Let_def)

text \<open>
  Claim C5, amended: a failed \<open>Connect\<close> to a discovered peer is logged as a
  warning and the loop goes on with the next peer; an error of \<open>Next\<close> aborts
  the process with \<open>log.Panic\<close>; what \<open>Publish\<close> returns is dropped in the
  timer's callback and never changes how \<open>Join\<close> ends.
\<close>

theorem connect_receive_publish_errors:
  "(ID p \<noteq> host_ID net \<and> Connect env p = Some e \<longrightarrow>
      connectPeers net env (p # rest) =
        [Log DebugLevel ''Connecting to: %s'' [S (Pretty env (ID p))],
         CallConnect p,
         Log WarnLevel ''Connection failed: %v'' [E e]] @ connectPeers net env rest) \<and>
   (pubsubJoin env ''hello'' = None \<and> Subscribe env = None \<and>
    list_all (\<lambda>t. \<not> isl (received t)) ts \<and> received t = Inl err \<longrightarrow>
      snd (Join net env (ts @ t # turns)) = LogPanic err) \<and>
   (map received ts = map received ts' \<longrightarrow> snd (Join net env ts) = snd (Join net env ts'))"
  using gossipLoop_receive_error [of ts t err net env turns]
    gossipLoop_exit_received [of ts ts' net env]
  by (auto simp: Join_def split_beta split: option.splits)

text \<open>
  The theorem at the sample network and the sample turns.
\<close>

theorem connect_receive_publish_errors_witness:
  "connectPeers sampleNet sampleEnv [samplePeer ''QmDown'', samplePeer ''QmUp''] =
     [Log DebugLevel ''Connecting to: %s'' [S ''QmDown''],
      CallConnect (samplePeer ''QmDown''),
      Log WarnLevel ''Connection failed: %v'' [E (Err ''dial backoff'')]] @
     connectPeers sampleNet sampleEnv [samplePeer ''QmUp''] \<and>
   snd (Join sampleNet sampleEnv (sampleTurns @ sampleLastTurn # sampleTurns)) =
     LogPanic (Err ''subscription cancelled'') \<and>
   snd (Join sampleNet sampleEnv sampleTurns) =
     snd (Join sampleNet sampleEnv (map (\<lambda>t. t\<lparr>published := None\<rparr>) sampleTurns))"
proof -
  have c: "ID (samplePeer ''QmDown'') \<noteq> host_ID sampleNet \<and>
      Connect sampleEnv (samplePeer ''QmDown'') = Some (Err ''dial backoff'')"
    by (simp add: samplePeer_def sampleNet_def sampleEnv_def)
  have r: "pubsubJoin sampleEnv ''hello'' = None \<and> Subscribe sampleEnv = None \<and>
      list_all (\<lambda>t. \<not> isl (received t)) sampleTurns \<and>
      received sampleLastTurn = Inl (Err ''subscription cancelled'')"
    by (simp add: sampleEnv_def sampleTurns_def sampleLastTurn_def)
  have p: "map received sampleTurns = map received (map (\<lambda>t. t\<lparr>published := None\<rparr>) sampleTurns)"
    by (simp add: sampleTurns_def)
  have pr: "Pretty sampleEnv (ID (samplePeer ''QmDown'')) = ''QmDown''"
    by (simp add: sampleEnv_def samplePeer_def)
  show ?thesis
    using connect_receive_publish_errors
      [of "samplePeer ''QmDown''" sampleNet sampleEnv "Err ''dial backoff''"
          "[samplePeer ''QmUp'']" sampleTurns sampleLastTurn "Err ''subscription cancelled''"
          sampleTurns "map (\<lambda>t. t\<lparr>published := None\<rparr>) sampleTurns"]
      c r p pr
    by simp
qed




text \<open>
  Claim C10 (the topic joined is always "hello", whatever the domain and the
  configuration). A run of \<open>Join\<close> has one \<open>pubsub.Join\<close> call, with the
  name "hello", for every node, environment and sequence of messages.
\<close>

theorem Join_topic_is_hello:
  "joined (fst (Join net env turns)) = [''hello'']"
  by (simp add: Join_def gossipLoop_joined split_beta split: option.splits)

end
